theory Spec2Isabelle
  imports Main
begin

section \<open>The chat component: data\<close>

text \<open>
  The component \<^verbatim>\<open>Chatbot\<close> of \<^verbatim>\<open>src/components/chatbot/index.tsx\<close> keeps its
  state in React \<^verbatim>\<open>useState\<close> cells and changes it in event handlers and effects.
  Each handler and each effect body is embedded as a function from the state at the
  time it runs to the state it leaves; what the browser, the network or the streaming
  hook hands to it is an argument.

  \<^verbatim>\<open>LLMModel\<close> is a string type of \<^verbatim>\<open>@/lib/llm/types\<close>; only equality on it is used.
  \<^verbatim>\<open>SourceMetadata\<close> of \<^verbatim>\<open>./types\<close> is never inspected by the component and is the
  type parameter \<open>'s\<close>.
\<close>

type_synonym LLMModel = string

text \<open>
  \<^verbatim>\<open>SearchSettings\<close> is declared in \<^verbatim>\<open>@/lib/api\<close>; these are the six fields the
  component reads from it.
\<close>

record SearchSettings =
  isBreadth :: bool
  overrideBreadth :: bool
  rerankEnabled :: bool
  overrideRerank :: bool
  prioritizeRecent :: bool
  overridePrioritizeRecent :: bool

text \<open>
  The value of \<^verbatim>\<open>JSON.parse(saved)\<close> for the key \<^verbatim>\<open>chatSettings\<close>, as far as the
  component reads it: a property that is absent, \<^verbatim>\<open>undefined\<close> or \<^verbatim>\<open>null\<close> is
  \<open>None\<close> (the case \<^verbatim>\<open>??\<close> replaces). The flags are taken at the type the
  component writes them with, \<^verbatim>\<open>boolean\<close>.
\<close>

record SavedSettings =
  isBreadth :: "bool option"
  rerankEnabled :: "bool option"
  prioritizeRecent :: "bool option"
  selectedModel :: "LLMModel option"

text \<open>
  What \<^verbatim>\<open>localStorage.getItem("chatSettings")\<close> followed by \<^verbatim>\<open>JSON.parse\<close> can
  give: no item (\<^verbatim>\<open>null\<close>, or the empty string, both falsy), a string that
  \<^verbatim>\<open>JSON.parse\<close> rejects, the JSON value \<^verbatim>\<open>null\<close> (every property access on it
  throws), or a value whose properties can be read.
\<close>

datatype SavedItem =
    NoItem
  | Unparseable
  | ParsedNull
  | Parsed SavedSettings

text \<open>The body of \<^verbatim>\<open>POST /api/conversations/{id}/messages\<close>, as \<^verbatim>\<open>handleSubmit\<close> builds it.\<close>

record CreateConversationMessageRequest =
  conversationId :: string
  content :: string
  model :: LLMModel
  isBreadth :: bool
  rerankEnabled :: bool
  prioritizeRecent :: bool

datatype Role = Assistant | User | System

text \<open>
  The value of the \<^verbatim>\<open>sources\<close> property of an assistant message. It is declared
  as an array of \<^verbatim>\<open>SourceMetadata\<close>; rendering can also put there the value of a
  property that the cache object inherits from \<^verbatim>\<open>Object.prototype\<close>, which is
  named by the property here.
\<close>

datatype 's Sources = SourceList "'s list" | PrototypeValue string

text \<open>
  \<^verbatim>\<open>type Message = AiMessage | UserMessage | SystemMessage\<close>. The optional
  properties \<^verbatim>\<open>id\<close> and \<^verbatim>\<open>model\<close> of an assistant message are options.
\<close>

datatype 's Message =
    AiMessage (content: string) "string option" "'s Sources" "LLMModel option"
  | UserMessage (content: string)
  | SystemMessage (content: string)

fun role :: "'s Message \<Rightarrow> Role" where
  "role (AiMessage c i srcs mdl) = Assistant"
| "role (UserMessage c) = User"
| "role (SystemMessage c) = System"

text \<open>\<^verbatim>\<open>m.id\<close> and \<^verbatim>\<open>m.sources\<close>, \<^verbatim>\<open>undefined\<close> on the messages that have none.\<close>

fun messageId :: "'s Message \<Rightarrow> string option" where
  "messageId (AiMessage c i srcs mdl) = i"
| "messageId m = None"

fun messageSources :: "'s Message \<Rightarrow> 's Sources option" where
  "messageSources (AiMessage c i srcs mdl) = Some srcs"
| "messageSources m = None"

text \<open>The number of entries of a role in a transcript.\<close>

definition countRole :: "Role \<Rightarrow> 's Message list \<Rightarrow> nat" where
  "countRole r ms = length (filter (\<lambda>m. role m = r) ms)"

text \<open>
  The pending message \<^verbatim>\<open>{ id, model }\<close>. The model is the header value cast with
  \<^verbatim>\<open>as LLMModel\<close>, so it is \<^verbatim>\<open>null\<close> when the header is missing.
\<close>

datatype PendingMessage =
  PendingMessage (pending_id: string) (pending_model: "LLMModel option")

text \<open>The properties of the \<^verbatim>\<open>tenant\<close> prop.\<close>

record Tenant =
  name :: string
  logoUrl :: "string option"
  slug :: string
  tenant_id :: string
  enabledModels :: "LLMModel list"
  searchSettingsId :: "string option"

text \<open>
  The \<^verbatim>\<open>useState\<close> cells of the component. \<^verbatim>\<open>selectedModel\<close> is declared as
  \<^verbatim>\<open>LLMModel\<close>, but the component can store \<^verbatim>\<open>undefined\<close> in it (index 0 of an
  empty array), which is \<open>None\<close> here.
\<close>

record 's Chatbot =
  messages :: "'s Message list"
  sourceCache :: "string \<rightharpoonup> 's list"
  pendingMessage :: "PendingMessage option"
  selectedModel :: "LLMModel option"
  isBreadth :: bool
  rerankEnabled :: bool
  prioritizeRecent :: bool
  tenantSearchSettings :: "SearchSettings option"
  isLoadingSettings :: bool

section \<open>The chat component: operations\<close>

subsection \<open>Model selection\<close>

text \<open>\<^verbatim>\<open>xs[0]\<close>: the first element, \<^verbatim>\<open>undefined\<close> for an empty array.\<close>

fun index0 :: "'a list \<Rightarrow> 'a option" where
  "index0 [] = None"
| "index0 (x # xs) = Some x"

text \<open>
  The initializer of \<^verbatim>\<open>selectedModel\<close> (lines 53 to 63). \<^verbatim>\<open>modelSchema\<close> is
  declared in \<^verbatim>\<open>@/lib/llm/types\<close>; whether it accepts a model is the parameter
  \<open>modelSchema_ok\<close>.
\<close>

definition selectedModel_init ::
  "(LLMModel \<Rightarrow> bool) \<Rightarrow> Tenant \<Rightarrow> LLMModel \<Rightarrow> LLMModel option" where
  "selectedModel_init modelSchema_ok tenant initialModel =
     (if length (enabledModels tenant) > 0 then
        (if modelSchema_ok initialModel \<and> initialModel \<in> set (enabledModels tenant)
         then Some initialModel
         else index0 (enabledModels tenant))
      else Some initialModel)"

text \<open>
  \<^verbatim>\<open>tenant.enabledModels.includes(selectedModel)\<close>; an \<^verbatim>\<open>undefined\<close> selection is
  in no array of models.
\<close>

fun includesModel :: "LLMModel list \<Rightarrow> LLMModel option \<Rightarrow> bool" where
  "includesModel xs None = False"
| "includesModel xs (Some m) = (m \<in> set xs)"

text \<open>The effect that keeps the selected model in the enabled list (lines 261 to 266).\<close>

definition modelEnforcementEffect :: "Tenant \<Rightarrow> 's Chatbot \<Rightarrow> 's Chatbot" where
  "modelEnforcementEffect tenant st =
     (if \<not> includesModel (enabledModels tenant) (selectedModel st)
      then st\<lparr>selectedModel := index0 (enabledModels tenant)\<rparr>
      else st)"

subsection \<open>Settings resolution\<close>

text \<open>The state after the \<^verbatim>\<open>useState\<close> initializers (lines 46 to 68).\<close>

definition initialState ::
  "(LLMModel \<Rightarrow> bool) \<Rightarrow> Tenant \<Rightarrow> LLMModel \<Rightarrow> 's Chatbot" where
  "initialState modelSchema_ok tenant initialModel =
     \<lparr>messages = [],
      sourceCache = Map.empty,
      pendingMessage = None,
      selectedModel = selectedModel_init modelSchema_ok tenant initialModel,
      isBreadth = False,
      rerankEnabled = False,
      prioritizeRecent = False,
      tenantSearchSettings = None,
      isLoadingSettings = True\<rparr>"

text \<open>
  What the request \<^verbatim>\<open>GET /api/tenants/current\<close> comes to: an ok response whose
  body passes \<^verbatim>\<open>searchSettingsSchema.parse\<close>, status 404, another status that is
  not ok, or an exception (the fetch rejects, or the body is not JSON, or the schema
  refuses it; all are thrown before any state is set).
\<close>

datatype FetchOutcome =
    FetchOk SearchSettings
  | Fetch404
  | FetchNotOk
  | FetchThrew

text \<open>\<^verbatim>\<open>!tenant.searchSettingsId\<close>: null, undefined and the empty string are falsy.\<close>

fun truthy :: "string option \<Rightarrow> bool" where
  "truthy None = False"
| "truthy (Some s) = (s \<noteq> [])"

text \<open>
  \<^verbatim>\<open>fetchTenantSearchSettings\<close> (lines 72 to 108). The \<^verbatim>\<open>finally\<close> block clears
  \<^verbatim>\<open>isLoadingSettings\<close> on every path.
\<close>

definition applyTenantSettings :: "SearchSettings \<Rightarrow> 's Chatbot \<Rightarrow> 's Chatbot" where
  "applyTenantSettings settings st =
     (let st1 = st\<lparr>tenantSearchSettings := Some settings\<rparr>;
          st2 = (if \<not> overrideBreadth settings
                 then st1\<lparr>isBreadth := SearchSettings.isBreadth settings\<rparr> else st1);
          st3 = (if \<not> overrideRerank settings
                 then st2\<lparr>rerankEnabled := SearchSettings.rerankEnabled settings\<rparr> else st2)
      in (if \<not> overridePrioritizeRecent settings
          then st3\<lparr>prioritizeRecent := SearchSettings.prioritizeRecent settings\<rparr> else st3))"

definition fetchTenantSearchSettings ::
  "Tenant \<Rightarrow> FetchOutcome \<Rightarrow> 's Chatbot \<Rightarrow> 's Chatbot" where
  "fetchTenantSearchSettings tenant outcome st =
     (if \<not> truthy (searchSettingsId tenant) then st\<lparr>isLoadingSettings := False\<rparr>
      else (case outcome of
              FetchOk settings \<Rightarrow> (applyTenantSettings settings st)\<lparr>isLoadingSettings := False\<rparr>
            | Fetch404 \<Rightarrow> st\<lparr>isLoadingSettings := False\<rparr>
            | FetchNotOk \<Rightarrow> st\<lparr>isLoadingSettings := False\<rparr>
            | FetchThrew \<Rightarrow> st\<lparr>isLoadingSettings := False\<rparr>))"

text \<open>\<^verbatim>\<open>!tenantSearchSettings || tenantSearchSettings.overrideX\<close>.\<close>

definition overrideAllowed ::
  "SearchSettings option \<Rightarrow> (SearchSettings \<Rightarrow> bool) \<Rightarrow> bool" where
  "overrideAllowed ts override = (case ts of None \<Rightarrow> True | Some s \<Rightarrow> override s)"

text \<open>\<^verbatim>\<open>v ?? d\<close>.\<close>

fun nullish :: "'a option \<Rightarrow> 'a \<Rightarrow> 'a" where
  "nullish None d = d"
| "nullish (Some v) d = v"

text \<open>The body of the \<^verbatim>\<open>try\<close> block of the load effect, on a readable value.\<close>

definition applySavedSettings ::
  "LLMModel \<Rightarrow> SavedSettings \<Rightarrow> 's Chatbot \<Rightarrow> 's Chatbot" where
  "applySavedSettings initialModel settings st =
     (let ts = tenantSearchSettings st;
          st1 = (if overrideAllowed ts overrideBreadth
                 then st\<lparr>isBreadth := nullish (SavedSettings.isBreadth settings) False\<rparr>
                 else st);
          st2 = (if overrideAllowed ts overrideRerank
                 then st1\<lparr>rerankEnabled := nullish (SavedSettings.rerankEnabled settings) False\<rparr>
                 else st1);
          st3 = (if overrideAllowed ts overridePrioritizeRecent
                 then st2\<lparr>prioritizeRecent :=
                            nullish (SavedSettings.prioritizeRecent settings) False\<rparr>
                 else st2)
      in st3\<lparr>selectedModel :=
               Some (nullish (SavedSettings.selectedModel settings) initialModel)\<rparr>)"

text \<open>
  The load effect (lines 114 to 138). It does nothing while the tenant settings are
  loading. A string that does not parse throws in \<^verbatim>\<open>JSON.parse\<close>; on the value
  \<^verbatim>\<open>null\<close> the first property access throws, and \<^verbatim>\<open>settings.selectedModel\<close> is
  read on every path, so no setter has run by then. Both are caught and logged.
\<close>

definition loadSavedSettings ::
  "LLMModel \<Rightarrow> SavedItem \<Rightarrow> 's Chatbot \<Rightarrow> 's Chatbot" where
  "loadSavedSettings initialModel saved st =
     (if isLoadingSettings st then st
      else (case saved of
              NoItem \<Rightarrow> st
            | Unparseable \<Rightarrow> st
            | ParsedNull \<Rightarrow> st
            | Parsed settings \<Rightarrow> applySavedSettings initialModel settings st))"

text \<open>
  Settings resolution on mount: the initial state, the tenant settings fetch, then the
  load of the locally saved settings.
\<close>

definition resolveSettings ::
  "(LLMModel \<Rightarrow> bool) \<Rightarrow> Tenant \<Rightarrow> LLMModel \<Rightarrow> FetchOutcome \<Rightarrow> SavedItem \<Rightarrow> 's Chatbot" where
  "resolveSettings modelSchema_ok tenant initialModel outcome saved =
     loadSavedSettings initialModel saved
       (fetchTenantSearchSettings tenant outcome
          (initialState modelSchema_ok tenant initialModel))"

text \<open>The locally stored value of each flag, when there is one.\<close>

fun savedIsBreadth :: "SavedItem \<Rightarrow> bool option" where
  "savedIsBreadth (Parsed settings) = SavedSettings.isBreadth settings"
| "savedIsBreadth saved = None"

fun savedRerankEnabled :: "SavedItem \<Rightarrow> bool option" where
  "savedRerankEnabled (Parsed settings) = SavedSettings.rerankEnabled settings"
| "savedRerankEnabled saved = None"

fun savedPrioritizeRecent :: "SavedItem \<Rightarrow> bool option" where
  "savedPrioritizeRecent (Parsed settings) = SavedSettings.prioritizeRecent settings"
| "savedPrioritizeRecent saved = None"

subsection \<open>Chat orchestration\<close>

text \<open>
  \<^verbatim>\<open>handleSubmit\<close> (lines 182 to 199). \<^verbatim>\<open>getProviderForModel\<close> is declared in
  \<^verbatim>\<open>@/lib/llm/types\<close> and is a parameter; a falsy result is \<open>None\<close>. The state
  is the one of the render that created the handler (\<^verbatim>\<open>messages\<close> is read from
  the closure). The second component is the payload handed to \<^verbatim>\<open>submit\<close>, if any.
\<close>

definition handleSubmit ::
  "(LLMModel \<Rightarrow> 'p option) \<Rightarrow> string \<Rightarrow> string \<Rightarrow> LLMModel \<Rightarrow> 's Chatbot
     \<Rightarrow> 's Chatbot \<times> CreateConversationMessageRequest option" where
  "handleSubmit getProviderForModel convId text mdl st =
     (case getProviderForModel mdl of
        None \<Rightarrow> (st, None)
      | Some provider \<Rightarrow>
          (st\<lparr>messages := messages st @ [UserMessage text]\<rparr>,
           Some \<lparr>conversationId = convId,
                 CreateConversationMessageRequest.content = text,
                 model = mdl,
                 CreateConversationMessageRequest.isBreadth = isBreadth st,
                 CreateConversationMessageRequest.rerankEnabled = rerankEnabled st,
                 CreateConversationMessageRequest.prioritizeRecent = prioritizeRecent st\<rparr>))"

text \<open>The two response headers the fetch middleware reads.\<close>

record ResponseHeaders =
  x_message_id :: "string option"
  x_model :: "string option"

datatype ClientError = AssertionError

text \<open>
  The fetch middleware of \<^verbatim>\<open>useObject\<close> (lines 159 to 171), from the response on.
  \<^verbatim>\<open>assert(id)\<close> throws on a missing or empty header, before the setter runs.
\<close>

definition middleware :: "ResponseHeaders \<Rightarrow> 's Chatbot \<Rightarrow> ClientError + 's Chatbot" where
  "middleware headers st =
     (case x_message_id headers of
        None \<Rightarrow> Inl AssertionError
      | Some i \<Rightarrow>
          (if i = [] then Inl AssertionError
           else Inr (st\<lparr>pendingMessage := Some (PendingMessage i (x_model headers))\<rparr>)))"

text \<open>
  The state once the middleware has run: an assertion that throws has set nothing.
\<close>

definition afterResponse :: "ResponseHeaders \<Rightarrow> 's Chatbot \<Rightarrow> 's Chatbot" where
  "afterResponse headers st = (case middleware headers st of Inl e \<Rightarrow> st | Inr st' \<Rightarrow> st')"

text \<open>
  The argument of \<^verbatim>\<open>onFinish\<close>: \<^verbatim>\<open>event.object\<close> is the streamed object, or
  \<^verbatim>\<open>undefined\<close> when the stream gave none that fits the schema.
\<close>

record ResponseObject =
  message :: string

record FinishEvent =
  object :: "ResponseObject option"

text \<open>
  \<^verbatim>\<open>onFinish\<close> (lines 173 to 179). \<^verbatim>\<open>pendingMessageRef.current\<close> is the pending
  message of the last render.
\<close>

definition onFinish :: "FinishEvent \<Rightarrow> 's Chatbot \<Rightarrow> 's Chatbot" where
  "onFinish event st =
     (case object event of
        None \<Rightarrow> st
      | Some obj \<Rightarrow>
          (let mdl = (case pendingMessage st of None \<Rightarrow> None | Some p \<Rightarrow> pending_model p)
           in st\<lparr>messages := messages st @ [AiMessage (message obj) None (SourceList []) mdl]\<rparr>))"

text \<open>\<^verbatim>\<open>onError: console.error\<close>: the error is logged and no state changes.\<close>

definition onError :: "'s Chatbot \<Rightarrow> 's Chatbot" where
  "onError st = st"

text \<open>\<^verbatim>\<open>{ ...last, id: pendingMessage.id }\<close> on an assistant message.\<close>

fun withId :: "string \<Rightarrow> 's Message \<Rightarrow> 's Message" where
  "withId i (AiMessage c old srcs mdl) = AiMessage c (Some i) srcs mdl"
| "withId i m = m"

text \<open>
  The effect that stamps the finished assistant message (lines 201 to 210).
  \<^verbatim>\<open>isLoading\<close> comes from the streaming hook.
\<close>

definition stampEffect :: "bool \<Rightarrow> 's Chatbot \<Rightarrow> 's Chatbot" where
  "stampEffect isLoading st =
     (case pendingMessage st of
        None \<Rightarrow> st
      | Some pending \<Rightarrow>
          (if isLoading then st
           else if messages st = [] then st
           else if role (last (messages st)) = Assistant
           then st\<lparr>messages := butlast (messages st) @ [withId (pending_id pending) (last (messages st))],
                   pendingMessage := None\<rparr>
           else st))"

text \<open>
  What \<^verbatim>\<open>GET /api/conversations/{id}/messages/{messageId}\<close> comes to: a response
  that is not ok, an ok response with the JSON \<^verbatim>\<open>{ id, sources }\<close>, or an exception
  inside the detached async function.
\<close>

datatype 's SourcesOutcome =
    SourcesNotOk
  | SourcesOk string "'s list"
  | SourcesThrew

text \<open>The effect that fetches the sources of the pending message (lines 212 to 224).\<close>

definition sourceFetchEffect :: "'s SourcesOutcome \<Rightarrow> 's Chatbot \<Rightarrow> 's Chatbot" where
  "sourceFetchEffect outcome st =
     (case pendingMessage st of
        None \<Rightarrow> st
      | Some pending \<Rightarrow>
          (case outcome of
             SourcesNotOk \<Rightarrow> st
           | SourcesOk json_id json_sources \<Rightarrow>
               st\<lparr>sourceCache := (sourceCache st)(json_id \<mapsto> json_sources)\<rparr>
           | SourcesThrew \<Rightarrow> st))"

text \<open>
  The function mapped over the transcript in \<^verbatim>\<open>messagesWithSources\<close> (line 256):
  \<^verbatim>\<open>m.role === "assistant" && m.id && sourceCache[m.id] ? { ...m, sources: sourceCache[m.id] } : m\<close>.
  An empty id is falsy; a cached array is truthy even when empty. The cache is a
  plain object, so for an id that is not a key of the cache and names a property of
  \<^verbatim>\<open>Object.prototype\<close> the lookup gives that property's value, which is truthy
  too, and the entry is rendered with it.
\<close>

definition inheritedProperty :: "string \<Rightarrow> bool" where
  "inheritedProperty k =
     (k \<in> set [''constructor'', ''hasOwnProperty'', ''isPrototypeOf'',
                ''propertyIsEnumerable'', ''toLocaleString'', ''toString'', ''valueOf'',
                ''__proto__'', ''__defineGetter__'', ''__defineSetter__'',
                ''__lookupGetter__'', ''__lookupSetter__''])"

fun attachSources :: "(string \<rightharpoonup> 's list) \<Rightarrow> 's Message \<Rightarrow> 's Message" where
  "attachSources cache (AiMessage c (Some i) srcs mdl) =
     (if i \<noteq> [] then
        (case cache i of
           Some cached \<Rightarrow> AiMessage c (Some i) (SourceList cached) mdl
         | None \<Rightarrow>
             (if inheritedProperty i then AiMessage c (Some i) (PrototypeValue i) mdl
              else AiMessage c (Some i) srcs mdl))
      else AiMessage c (Some i) srcs mdl)"
| "attachSources cache m = m"

text \<open>\<^verbatim>\<open>messagesWithSources\<close> (lines 252 to 258).\<close>

definition shownMessages :: "'s Chatbot \<Rightarrow> 's Message list" where
  "shownMessages st = filter (\<lambda>m. role m = User \<or> role m = Assistant) (messages st)"

definition messagesWithSources :: "'s Chatbot \<Rightarrow> 's Message list" where
  "messagesWithSources st = map (attachSources (sourceCache st)) (shownMessages st)"

section \<open>The tenant-setup route\<close>

text \<open>
  The route handler \<^verbatim>\<open>POST\<close> and its \<^verbatim>\<open>setupSchema\<close>. A JavaScript string is
  its sequence of UTF-16 code units, which is what \<^verbatim>\<open>trim\<close> and the length
  check of \<^verbatim>\<open>min(1)\<close> work on.
\<close>

type_synonym js_string = "nat list"

text \<open>
  The code units that \<^verbatim>\<open>String.prototype.trim\<close> removes: the ECMAScript white
  space and line terminator characters.
\<close>

definition isWhiteSpace :: "nat \<Rightarrow> bool" where
  "isWhiteSpace c =
     ((9 \<le> c \<and> c \<le> 13) \<or> c = 32 \<or> c = 160 \<or> c = 5760 \<or> (8192 \<le> c \<and> c \<le> 8202)
      \<or> c = 8232 \<or> c = 8233 \<or> c = 8239 \<or> c = 8287 \<or> c = 12288 \<or> c = 65279)"

definition trim :: "js_string \<Rightarrow> js_string" where
  "trim s = rev (dropWhile isWhiteSpace (rev (dropWhile isWhiteSpace s)))"

text \<open>
  The JSON value of a request body, as far as \<^verbatim>\<open>setupSchema\<close> looks at it: not an
  object, or an object whose \<^verbatim>\<open>name\<close> is absent, not a string, or a string.
\<close>

datatype NameField = NameAbsent | NameNotString | NameString js_string

datatype Json = JsonNotObject | JsonObject NameField

text \<open>
  The body of a request: none at all, text that is not JSON, or the text of a JSON
  value.
\<close>

datatype RequestBody = NoBody | NotJson | JsonText Json

text \<open>The request: its body and \<^verbatim>\<open>bodyUsed\<close>.\<close>

record Request =
  body :: RequestBody
  bodyUsed :: bool

datatype Error =
    Unauthenticated
  | BodyUnusable
  | SyntaxError
  | ZodError
  | StorageError

text \<open>
  \<^verbatim>\<open>request.json()\<close>: reading the body marks it used; a used body cannot be
  read again, and a body that is not JSON text is rejected after it was read. A
  request without a body has nothing to read: it is rejected as the empty text, which
  is not JSON, and \<^verbatim>\<open>bodyUsed\<close> stays false.
\<close>

definition request_json :: "Request \<Rightarrow> (Error + Json) \<times> Request" where
  "request_json request =
     (if bodyUsed request then (Inl BodyUnusable, request)
      else (case body request of
              NoBody \<Rightarrow> (Inl SyntaxError, request)
            | NotJson \<Rightarrow> (Inl SyntaxError, request\<lparr>bodyUsed := True\<rparr>)
            | JsonText json \<Rightarrow> (Inr json, request\<lparr>bodyUsed := True\<rparr>)))"

datatype SetupPayload = SetupPayload (payload_name: js_string)

text \<open>
  \<^verbatim>\<open>setupSchema.parse\<close> with
  \<^verbatim>\<open>setupSchema = z.object({ name: z.string().trim().min(1) })\<close>: the name is
  trimmed first, the length check is on the trimmed string, and the parsed payload
  holds the trimmed string.
\<close>

fun setupSchema_parse :: "Json \<Rightarrow> Error + SetupPayload" where
  "setupSchema_parse (JsonObject (NameString s)) =
     (if length (trim s) < 1 then Inl ZodError else Inr (SetupPayload (trim s)))"
| "setupSchema_parse json = Inl ZodError"

text \<open>\<^verbatim>\<open>session.user.id\<close> is all the handler reads of the session.\<close>

record Session =
  userId :: string

text \<open>
  The collaborators outside the route: the session of the current request, if it has a
  valid one, the identifiers the storage gives to the next tenant and profile, and
  whether each of the two storage operations fails.
\<close>

record Platform =
  currentSession :: "Session option"
  nextTenantId :: string
  nextProfileId :: string
  createTenantFails :: bool
  setCurrentProfileIdFails :: bool

record TenantRow =
  tenantId :: string
  tenantName :: js_string

record ProfileRow =
  profileId :: string
  profileUserId :: string
  profileTenantId :: string

text \<open>The stored tenants and profiles, and each user's current-profile pointer.\<close>

record Database =
  tenants :: "TenantRow list"
  profiles :: "ProfileRow list"
  currentProfileId :: "string \<rightharpoonup> string"

text \<open>
  Modelled from the spec: \<^verbatim>\<open>requireSession\<close> of \<^verbatim>\<open>@/lib/server-utils\<close> is not
  among the sources. Spec 4.2: it resolves the current request's authenticated user
  and fails (the request is rejected) when no valid session exists.
\<close>

definition requireSession :: "Platform \<Rightarrow> Error + Session" where
  "requireSession platform =
     (case currentSession platform of
        None \<Rightarrow> Inl Unauthenticated
      | Some session \<Rightarrow> Inr session)"

text \<open>
  Modelled from the spec: \<^verbatim>\<open>createTenant\<close> of \<^verbatim>\<open>@/lib/service\<close> is not among the
  sources. Spec 2 and 4.1: it creates a new tenant record and an associated profile of
  the user, and gives back the two identifiers. A failing call stores nothing.
\<close>

definition createTenant ::
  "Platform \<Rightarrow> string \<Rightarrow> js_string \<Rightarrow> Database \<Rightarrow> (Error + string \<times> string) \<times> Database" where
  "createTenant platform uid nm db =
     (if createTenantFails platform then (Inl StorageError, db)
      else (Inr (nextProfileId platform, nextTenantId platform),
            db\<lparr>tenants := tenants db @
                     [\<lparr>tenantId = nextTenantId platform, tenantName = nm\<rparr>],
               profiles := profiles db @
                     [\<lparr>profileId = nextProfileId platform, profileUserId = uid,
                       profileTenantId = nextTenantId platform\<rparr>]\<rparr>))"

text \<open>
  Modelled from the spec: \<^verbatim>\<open>setCurrentProfileId\<close> of \<^verbatim>\<open>@/lib/service\<close> is not among
  the sources. Spec 3 and 4.1: it makes the profile the user's current profile, a
  pointer stored in user-level state. A failing call leaves the pointer as it was.
\<close>

definition setCurrentProfileId ::
  "Platform \<Rightarrow> string \<Rightarrow> string \<Rightarrow> Database \<Rightarrow> (Error + unit) \<times> Database" where
  "setCurrentProfileId platform uid pid db =
     (if setCurrentProfileIdFails platform then (Inl StorageError, db)
      else (Inr (), db\<lparr>currentProfileId := (currentProfileId db)(uid \<mapsto> pid)\<rparr>))"

text \<open>\<^verbatim>\<open>Response.json({ id: tenantId })\<close>.\<close>

datatype Response = ResponseJson (response_id: string)

text \<open>
  \<^verbatim>\<open>POST\<close> (lines 11 to 19). Every \<^verbatim>\<open>await\<close> that rejects ends the handler with
  that error; the request and the database are returned as the handler leaves them.
\<close>

definition POST :: "Platform \<Rightarrow> Request \<Rightarrow> Database \<Rightarrow> (Error + Response) \<times> Request \<times> Database" where
  "POST platform request db =
     (case requireSession platform of
        Inl e \<Rightarrow> (Inl e, request, db)
      | Inr session \<Rightarrow>
          (case request_json request of
             (Inl e, request1) \<Rightarrow> (Inl e, request1, db)
           | (Inr json, request1) \<Rightarrow>
               (case setupSchema_parse json of
                  Inl e \<Rightarrow> (Inl e, request1, db)
                | Inr payload \<Rightarrow>
                    (case createTenant platform (userId session) (payload_name payload) db of
                       (Inl e, db1) \<Rightarrow> (Inl e, request1, db1)
                     | (Inr (pid, tid), db1) \<Rightarrow>
                         (case setCurrentProfileId platform (userId session) pid db1 of
                            (Inl e, db2) \<Rightarrow> (Inl e, request1, db2)
                          | (Inr u, db2) \<Rightarrow> (Inr (ResponseJson tid), request1, db2))))))"

section \<open>Example values\<close>

text \<open>
  Concrete inputs for the closed theorems below. \<open>knownModel\<close> and
  \<open>exampleProvider\<close> stand for \<^verbatim>\<open>modelSchema\<close> and \<^verbatim>\<open>getProviderForModel\<close>
  on a deployment with two models.
\<close>

definition knownModel :: "LLMModel \<Rightarrow> bool" where
  "knownModel m = (m = ''gpt-4'' \<or> m = ''claude'')"

definition exampleProvider :: "LLMModel \<Rightarrow> string option" where
  "exampleProvider m =
     (if m = ''gpt-4'' then Some ''openai''
      else if m = ''claude'' then Some ''anthropic''
      else None)"

definition exampleTenant :: Tenant where
  "exampleTenant =
     \<lparr>name = ''Acme'', logoUrl = None, slug = ''acme'', tenant_id = ''t-1'',
      enabledModels = [''gpt-4'', ''claude''], searchSettingsId = Some ''ss-1''\<rparr>"

text \<open>Tenant settings that fix all three flags at true.\<close>

definition lockedSettings :: SearchSettings where
  "lockedSettings =
     \<lparr>SearchSettings.isBreadth = True, overrideBreadth = False,
      SearchSettings.rerankEnabled = True, overrideRerank = False,
      SearchSettings.prioritizeRecent = True, overridePrioritizeRecent = False\<rparr>"

text \<open>Tenant settings whose three flags are true and may be overridden.\<close>

definition openSettings :: SearchSettings where
  "openSettings =
     \<lparr>SearchSettings.isBreadth = True, overrideBreadth = True,
      SearchSettings.rerankEnabled = True, overrideRerank = True,
      SearchSettings.prioritizeRecent = True, overridePrioritizeRecent = True\<rparr>"

text \<open>Saved user settings with all three flags false and a model the tenant lacks.\<close>

definition savedUserSettings :: SavedSettings where
  "savedUserSettings =
     \<lparr>SavedSettings.isBreadth = Some False, SavedSettings.rerankEnabled = Some False,
      SavedSettings.prioritizeRecent = Some False,
      SavedSettings.selectedModel = Some ''llama''\<rparr>"

text \<open>
  A chat after two answered questions, with the sources of the first answer cached
  and a pending message left from before.
\<close>

definition exampleChat :: "nat Chatbot" where
  "exampleChat =
     \<lparr>messages =
        [UserMessage ''first'', AiMessage ''one'' (Some ''m-1'') (SourceList []) (Some ''gpt-4''),
         UserMessage ''second'', AiMessage ''two'' (Some ''m-2'') (SourceList []) (Some ''gpt-4'')],
      sourceCache = [''m-1'' \<mapsto> [10, 11]],
      pendingMessage = Some (PendingMessage ''m-2'' (Some ''gpt-4'')),
      selectedModel = Some ''gpt-4'',
      isBreadth = False,
      rerankEnabled = False,
      prioritizeRecent = False,
      tenantSearchSettings = None,
      isLoadingSettings = False\<rparr>"

text \<open>
  Two overlapping submissions in a new conversation. Question A is submitted and its
  response arrives with the id \<open>m-A\<close>; while that answer is streaming, question B
  is submitted and its response arrives with the id \<open>m-B\<close>; then stream A
  finishes, which ends the loading state of the hook, and the stamp effect runs. The
  stamp effect also runs after the earlier renders, where the hook is loading.
\<close>

definition firstAnswerFinished :: "nat Chatbot" where
  "firstAnswerFinished =
     (let s1 = fst (handleSubmit exampleProvider ''conv-1'' ''question A'' ''gpt-4''
                 (initialState knownModel exampleTenant ''gpt-4''));
          s2 = stampEffect True
                 (afterResponse \<lparr>x_message_id = Some ''m-A'', x_model = Some ''gpt-4''\<rparr> s1);
          s3 = fst (handleSubmit exampleProvider ''conv-1'' ''question B'' ''claude'' s2);
          s4 = stampEffect True
                 (afterResponse \<lparr>x_message_id = Some ''m-B'', x_model = Some ''claude''\<rparr> s3)
      in stampEffect False (onFinish \<lparr>object = Some \<lparr>message = ''answer A''\<rparr>\<rparr> s4))"

text \<open>Then stream B finishes too, and the stamp effect runs again.\<close>

definition bothAnswersFinished :: "nat Chatbot" where
  "bothAnswersFinished =
     stampEffect False
       (onFinish \<lparr>object = Some \<lparr>message = ''answer B''\<rparr>\<rparr> firstAnswerFinished)"

text \<open>A signed-in user, and a platform on which both storage operations work.\<close>

definition examplePlatform :: Platform where
  "examplePlatform =
     \<lparr>currentSession = Some \<lparr>userId = ''u-1''\<rparr>,
      nextTenantId = ''t-9'', nextProfileId = ''p-9'',
      createTenantFails = False, setCurrentProfileIdFails = False\<rparr>"

text \<open>A request whose body is \<^verbatim>\<open>{ "name": " Acme " }\<close>, and one whose name is two blanks.\<close>

definition acmeRequest :: Request where
  "acmeRequest =
     \<lparr>body = JsonText (JsonObject (NameString [32, 65, 99, 109, 101, 32])), bodyUsed = False\<rparr>"

definition blankRequest :: Request where
  "blankRequest = \<lparr>body = JsonText (JsonObject (NameString [32, 9])), bodyUsed = False\<rparr>"

definition emptyDatabase :: Database where
  "emptyDatabase = \<lparr>tenants = [], profiles = [], currentProfileId = Map.empty\<rparr>"

section \<open>Settings resolution\<close>

text \<open>
  C1. When the tenant's search settings were fetched and they do not allow a flag to be
  overridden, then after settings resolution (the fetch and the load of the locally
  saved settings) the flag has the tenant's value, whatever is saved locally. This
  holds for each of \<open>isBreadth\<close>, \<open>rerankEnabled\<close> and \<open>prioritizeRecent\<close>.
\<close>

theorem non_overridable_flags_fixed:
  assumes "truthy (searchSettingsId tenant)"
  shows "(\<not> overrideBreadth s \<longrightarrow>
            isBreadth (resolveSettings ok tenant initialModel (FetchOk s) saved)
              = SearchSettings.isBreadth s)
       \<and> (\<not> overrideRerank s \<longrightarrow>
            rerankEnabled (resolveSettings ok tenant initialModel (FetchOk s) saved)
              = SearchSettings.rerankEnabled s)
       \<and> (\<not> overridePrioritizeRecent s \<longrightarrow>
            prioritizeRecent (resolveSettings ok tenant initialModel (FetchOk s) saved)
              = SearchSettings.prioritizeRecent s)"
  using assms
  by (simp add: resolveSettings_def loadSavedSettings_def applySavedSettings_def
      fetchTenantSearchSettings_def applyTenantSettings_def overrideAllowed_def Let_def
      split: SavedItem.split)

theorem non_overridable_flags_fixed_witness:
  "truthy (searchSettingsId exampleTenant)
   \<and> \<not> overrideBreadth lockedSettings
   \<and> \<not> overrideRerank lockedSettings
   \<and> \<not> overridePrioritizeRecent lockedSettings
   \<and> savedIsBreadth (Parsed savedUserSettings) = Some False
   \<and> isBreadth (resolveSettings knownModel exampleTenant ''gpt-4'' (FetchOk lockedSettings)
        (Parsed savedUserSettings) :: nat Chatbot) = True
   \<and> rerankEnabled (resolveSettings knownModel exampleTenant ''gpt-4'' (FetchOk lockedSettings)
        (Parsed savedUserSettings) :: nat Chatbot) = True
   \<and> prioritizeRecent (resolveSettings knownModel exampleTenant ''gpt-4'' (FetchOk lockedSettings)
        (Parsed savedUserSettings) :: nat Chatbot) = True"
  using non_overridable_flags_fixed [where tenant = exampleTenant and s = lockedSettings
      and ok = knownModel and initialModel = "''gpt-4''" and saved = "Parsed savedUserSettings"
      and 'a = nat]
  by (simp add: exampleTenant_def lockedSettings_def savedUserSettings_def)

text \<open>
  C2, as the claim states it, fails: a flag that the tenant allows to be overridden
  and for which nothing is saved locally does not take the tenant's value. With the
  tenant's \<open>isBreadth\<close> true and overridable and no saved item, the resolved flag is
  false.
\<close>

theorem overridable_flag_tenant_default_counterexample:
  "overrideBreadth openSettings
   \<and> savedIsBreadth NoItem = None
   \<and> isBreadth (resolveSettings knownModel exampleTenant ''gpt-4'' (FetchOk openSettings)
        NoItem :: nat Chatbot) \<noteq> SearchSettings.isBreadth openSettings"
  by (simp add: resolveSettings_def loadSavedSettings_def fetchTenantSearchSettings_def
      applyTenantSettings_def initialState_def exampleTenant_def openSettings_def Let_def)

text \<open>
  C2, amended. When the tenant's search settings were fetched and they allow a flag to
  be overridden, and no value is saved locally for that flag (no saved item, an item
  that cannot be read, or an item without the flag), then after settings resolution
  the flag is false, the initial value of the component, whatever the tenant's value
  is.
\<close>

theorem overridable_flag_without_saved_value:
  assumes "truthy (searchSettingsId tenant)"
  shows "(overrideBreadth s \<and> savedIsBreadth saved = None \<longrightarrow>
            isBreadth (resolveSettings ok tenant initialModel (FetchOk s) saved) = False)
       \<and> (overrideRerank s \<and> savedRerankEnabled saved = None \<longrightarrow>
            rerankEnabled (resolveSettings ok tenant initialModel (FetchOk s) saved) = False)
       \<and> (overridePrioritizeRecent s \<and> savedPrioritizeRecent saved = None \<longrightarrow>
            prioritizeRecent (resolveSettings ok tenant initialModel (FetchOk s) saved) = False)"
  using assms
  by (cases saved)
     (simp_all add: resolveSettings_def loadSavedSettings_def applySavedSettings_def
      fetchTenantSearchSettings_def applyTenantSettings_def overrideAllowed_def Let_def
      initialState_def)

theorem overridable_flag_without_saved_value_witness:
  "truthy (searchSettingsId exampleTenant)
   \<and> overrideBreadth openSettings \<and> savedIsBreadth Unparseable = None
   \<and> overrideRerank openSettings \<and> savedRerankEnabled Unparseable = None
   \<and> overridePrioritizeRecent openSettings \<and> savedPrioritizeRecent Unparseable = None
   \<and> SearchSettings.isBreadth openSettings = True
   \<and> isBreadth (resolveSettings knownModel exampleTenant ''gpt-4'' (FetchOk openSettings)
        Unparseable :: nat Chatbot) = False
   \<and> rerankEnabled (resolveSettings knownModel exampleTenant ''gpt-4'' (FetchOk openSettings)
        Unparseable :: nat Chatbot) = False
   \<and> prioritizeRecent (resolveSettings knownModel exampleTenant ''gpt-4'' (FetchOk openSettings)
        Unparseable :: nat Chatbot) = False"
  using overridable_flag_without_saved_value [where tenant = exampleTenant
      and s = openSettings and ok = knownModel and initialModel = "''gpt-4''"
      and saved = Unparseable and 'a = nat]
  by (simp add: exampleTenant_def openSettings_def)

section \<open>Chat orchestration\<close>

lemma countRole_append: "countRole r (xs @ ys) = countRole r xs + countRole r ys"
  by (simp add: countRole_def)

text \<open>
  C3, as the claim states it, fails: a submission can end with no assistant entry.
  The user submits "Hello" with a model that has a provider, and the stream finishes
  with no object. The transcript then holds the user entry and no assistant entry.
\<close>

theorem submission_without_assistant_entry_counterexample:
  "exampleProvider ''gpt-4'' = Some ''openai''
   \<and> messages (onFinish \<lparr>object = None\<rparr>
        (fst (handleSubmit exampleProvider ''conv-1'' ''Hello'' ''gpt-4''
           (initialState knownModel exampleTenant ''gpt-4'' :: nat Chatbot))))
      = [UserMessage ''Hello'']
   \<and> countRole Assistant (messages (onFinish \<lparr>object = None\<rparr>
        (fst (handleSubmit exampleProvider ''conv-1'' ''Hello'' ''gpt-4''
           (initialState knownModel exampleTenant ''gpt-4'' :: nat Chatbot))))) = 0"
  by (simp add: onFinish_def handleSubmit_def exampleProvider_def initialState_def
      countRole_def)

text \<open>
  C3, amended. A submission whose model has a provider appends exactly one user entry
  to the transcript at submit time, and no other entry; a submission whose model has
  no provider changes nothing and submits nothing. When the stream completes with an
  object, exactly one assistant entry is appended, with the object's message, no id,
  no sources and the pending message's model; when it completes without an object, or
  fails, the transcript is unchanged. So each submission adds at most one assistant
  entry.
\<close>

theorem submission_transcript_entries:
  "(getProviderForModel mdl = Some provider \<longrightarrow>
      messages (fst (handleSubmit getProviderForModel convId msg mdl st))
        = messages st @ [UserMessage msg]
    \<and> countRole User (messages (fst (handleSubmit getProviderForModel convId msg mdl st)))
        = countRole User (messages st) + 1
    \<and> countRole Assistant (messages (fst (handleSubmit getProviderForModel convId msg mdl st)))
        = countRole Assistant (messages st))
 \<and> (getProviderForModel mdl = None \<longrightarrow>
      handleSubmit getProviderForModel convId msg mdl st = (st, None))
 \<and> (object event = Some obj \<longrightarrow>
      messages (onFinish event st)
        = messages st @ [AiMessage (message obj) None (SourceList [])
            (case pendingMessage st of None \<Rightarrow> None | Some p \<Rightarrow> pending_model p)]
    \<and> countRole Assistant (messages (onFinish event st))
        = countRole Assistant (messages st) + 1
    \<and> countRole User (messages (onFinish event st)) = countRole User (messages st))
 \<and> (object event = None \<longrightarrow> onFinish event st = st)
 \<and> onError st = st"
  by (simp add: handleSubmit_def onFinish_def onError_def countRole_append Let_def)
     (simp add: countRole_def)

theorem submission_transcript_entries_witness:
  "exampleProvider ''gpt-4'' = Some ''openai''
   \<and> messages (fst (handleSubmit exampleProvider ''conv-1'' ''third'' ''gpt-4'' exampleChat))
      = messages exampleChat @ [UserMessage ''third'']
   \<and> countRole User (messages (fst (handleSubmit exampleProvider ''conv-1'' ''third'' ''gpt-4''
        exampleChat))) = 3
   \<and> exampleProvider ''llama'' = None
   \<and> handleSubmit exampleProvider ''conv-1'' ''third'' ''llama'' exampleChat = (exampleChat, None)
   \<and> object \<lparr>object = Some \<lparr>message = ''three''\<rparr>\<rparr> = Some \<lparr>message = ''three''\<rparr>
   \<and> messages (onFinish \<lparr>object = Some \<lparr>message = ''three''\<rparr>\<rparr> exampleChat)
      = messages exampleChat @ [AiMessage ''three'' None (SourceList []) (Some ''gpt-4'')]
   \<and> countRole Assistant (messages (onFinish \<lparr>object = Some \<lparr>message = ''three''\<rparr>\<rparr> exampleChat))
      = 3
   \<and> object \<lparr>object = None\<rparr> = None
   \<and> onFinish \<lparr>object = None\<rparr> exampleChat = exampleChat"
  using submission_transcript_entries [where getProviderForModel = exampleProvider
      and mdl = "''gpt-4''" and provider = "''openai''" and convId = "''conv-1''"
      and msg = "''third''" and st = exampleChat
      and event = "\<lparr>object = Some \<lparr>message = ''three''\<rparr>\<rparr>" and obj = "\<lparr>message = ''three''\<rparr>"]
    submission_transcript_entries [where getProviderForModel = exampleProvider
      and mdl = "''llama''" and convId = "''conv-1''"
      and msg = "''third''" and st = exampleChat and event = "\<lparr>object = None\<rparr>"]
  by (simp add: exampleProvider_def exampleChat_def countRole_def)

text \<open>
  The pending message is one state cell holding at most one record. When the
  response arrives with a message id, the middleware stores that id and the model
  in the cell, whatever the cell held before. The stamp effect, when a message is
  pending, the stream is not loading and the last transcript entry is an assistant
  entry, puts the pending id on that entry and empties the cell in the same step;
  and whenever the stamp effect empties the cell, the last transcript entry is an
  assistant entry that carries the pending id.
\<close>

lemma pendingMessage_overwrite_and_stamp:
  "(x_message_id headers = Some i \<and> i \<noteq> [] \<longrightarrow>
      (\<exists>st'. middleware headers st = Inr st'
         \<and> pendingMessage st' = Some (PendingMessage i (x_model headers))))
 \<and> (pendingMessage st = Some pending \<and> \<not> isLoading \<and> messages st \<noteq> []
      \<and> role (last (messages st)) = Assistant \<longrightarrow>
      pendingMessage (stampEffect isLoading st) = None
    \<and> messages (stampEffect isLoading st)
        = butlast (messages st) @ [withId (pending_id pending) (last (messages st))]
    \<and> messageId (last (messages (stampEffect isLoading st))) = Some (pending_id pending))
 \<and> (pendingMessage st = Some pending \<and> pendingMessage (stampEffect isLoading st) = None \<longrightarrow>
      messages (stampEffect isLoading st) \<noteq> []
    \<and> role (last (messages (stampEffect isLoading st))) = Assistant
    \<and> messageId (last (messages (stampEffect isLoading st))) = Some (pending_id pending))"
proof -
  have stamped: "messageId (withId j m) = Some j" "role (withId j m) = Assistant"
    if "role m = Assistant" for j and m :: "'a Message"
    using that by (cases m; simp)+
  show ?thesis
    by (auto simp: middleware_def stampEffect_def stamped split: if_splits)
qed

text \<open>
  C5. The code does not keep the pending record with the answer it belongs to. The
  stamp effect stamps whatever assistant entry is last. With two overlapping
  submissions the second response overwrites the pending record of the first; when
  the first answer is finished it is stamped with the id of the second response and
  takes the second response's model, and the record is cleared. The second answer is
  then appended without a model, finds no pending record and never gets an id.
\<close>

theorem overlapping_submissions_stamp_other_answer:
  "messages firstAnswerFinished
     = [UserMessage ''question A'', UserMessage ''question B'',
        AiMessage ''answer A'' (Some ''m-B'') (SourceList []) (Some ''claude'')]
   \<and> pendingMessage firstAnswerFinished = None
   \<and> messages bothAnswersFinished
     = [UserMessage ''question A'', UserMessage ''question B'',
        AiMessage ''answer A'' (Some ''m-B'') (SourceList []) (Some ''claude''),
        AiMessage ''answer B'' None (SourceList []) None]
   \<and> pendingMessage bothAnswersFinished = None"
  by (simp add: bothAnswersFinished_def firstAnswerFinished_def handleSubmit_def
      afterResponse_def middleware_def onFinish_def stampEffect_def initialState_def
      exampleProvider_def Let_def)

section \<open>Model selection\<close>

text \<open>
  C6. Whenever the selected model is not in the tenant's list of enabled models, the
  model-enforcement effect sets the selected model to \<^verbatim>\<open>tenant.enabledModels[0]\<close>,
  which is the first entry of the list when the list has one.
\<close>

theorem model_enforcement_replaces_excluded:
  assumes "\<not> includesModel (enabledModels tenant) (selectedModel st)"
  shows "selectedModel (modelEnforcementEffect tenant st) = index0 (enabledModels tenant)
       \<and> (enabledModels tenant \<noteq> [] \<longrightarrow>
            selectedModel (modelEnforcementEffect tenant st) = Some (hd (enabledModels tenant)))"
  using assms by (cases "enabledModels tenant") (simp_all add: modelEnforcementEffect_def)

theorem model_enforcement_replaces_excluded_witness:
  "selectedModel (exampleChat\<lparr>selectedModel := Some ''llama''\<rparr>) = Some ''llama''
   \<and> \<not> includesModel (enabledModels exampleTenant) (Some ''llama'')
   \<and> enabledModels exampleTenant \<noteq> []
   \<and> selectedModel (modelEnforcementEffect exampleTenant
        (exampleChat\<lparr>selectedModel := Some ''llama''\<rparr>)) = Some ''gpt-4''"
  using model_enforcement_replaces_excluded [where tenant = exampleTenant
      and st = "exampleChat\<lparr>selectedModel := Some ''llama''\<rparr>"]
  by (simp add: exampleTenant_def)

text \<open>
  C9. When the tenant's list of enabled models is empty, the initializer of the
  selected model returns the global initial model, which is not enabled for the
  tenant, and the model-enforcement effect stores \<^verbatim>\<open>tenant.enabledModels[0]\<close>, which
  is undefined, as the selected model.
\<close>

theorem empty_enabled_models:
  assumes "enabledModels tenant = []"
  shows "selectedModel_init ok tenant initialModel = Some initialModel
       \<and> \<not> includesModel (enabledModels tenant) (Some initialModel)
       \<and> selectedModel (modelEnforcementEffect tenant st) = None"
  using assms
  by (cases "selectedModel st") (simp_all add: selectedModel_init_def modelEnforcementEffect_def)

theorem empty_enabled_models_witness:
  "enabledModels (exampleTenant\<lparr>enabledModels := []\<rparr>) = []
   \<and> selectedModel_init knownModel (exampleTenant\<lparr>enabledModels := []\<rparr>) ''gpt-4'' = Some ''gpt-4''
   \<and> selectedModel (modelEnforcementEffect (exampleTenant\<lparr>enabledModels := []\<rparr>) exampleChat)
      = None"
  using empty_enabled_models [where tenant = "exampleTenant\<lparr>enabledModels := []\<rparr>"
      and ok = knownModel and initialModel = "''gpt-4''" and st = exampleChat]
  by simp

section \<open>Source citations\<close>

lemma attachSources_other_id:
  "messageId m \<noteq> Some M \<Longrightarrow> attachSources (cache(M := v)) m = attachSources cache m"
  by (induction cache m rule: attachSources.induct) auto

lemma attachSources_same_id:
  "messageId m = Some M \<Longrightarrow> M \<noteq> [] \<Longrightarrow> cache M = Some cached \<Longrightarrow>
   messageSources (attachSources cache m) = Some (SourceList cached)"
  by (induction cache m rule: attachSources.induct) auto

lemma messageId_attachSources: "messageId (attachSources cache m) = messageId m"
  by (induction cache m rule: attachSources.induct) (auto split: option.splits)

text \<open>
  The source-fetch effect caches the fetched sources under the id of the fetched
  JSON and leaves every other cache entry as it was.
\<close>

lemma sourceFetchEffect_cache:
  "pendingMessage st = Some pending \<Longrightarrow>
   sourceCache (sourceFetchEffect (SourcesOk M srcs) st) = (sourceCache st)(M \<mapsto> srcs)"
  by (simp add: sourceFetchEffect_def)

text \<open>
  C7. Let the source cache hold sources for the message id \<open>M\<close>. Rendering keeps the
  order and the ids of the shown transcript entries. A shown entry whose id is \<open>M\<close>
  is rendered with the sources cached for \<open>M\<close>. A shown entry whose id is not \<open>M\<close>,
  or that has no id, is rendered exactly as it would be if the cache held nothing for
  \<open>M\<close>: the sources cached for \<open>M\<close> are attached to no such entry.
\<close>

theorem sources_attached_by_id:
  assumes "sourceCache st M = Some cached"
    and "i < length (shownMessages st)"
    and "j < length (shownMessages st)"
  shows "length (messagesWithSources st) = length (shownMessages st)
       \<and> messageId (messagesWithSources st ! i) = messageId (shownMessages st ! i)
       \<and> (messageId (shownMessages st ! i) = Some M \<and> M \<noteq> [] \<longrightarrow>
            messageSources (messagesWithSources st ! i) = Some (SourceList cached))
       \<and> (messageId (shownMessages st ! j) \<noteq> Some M \<longrightarrow>
            messagesWithSources st ! j
              = messagesWithSources (st\<lparr>sourceCache := (sourceCache st)(M := None)\<rparr>) ! j)"
  using assms
  by (simp add: messagesWithSources_def shownMessages_def messageId_attachSources
      attachSources_same_id attachSources_other_id)

theorem sources_attached_by_id_witness:
  "sourceCache exampleChat ''m-1'' = Some [10, 11]
   \<and> 1 < length (shownMessages exampleChat)
   \<and> 3 < length (shownMessages exampleChat)
   \<and> messageId (shownMessages exampleChat ! 1) = Some ''m-1''
   \<and> messageSources (messagesWithSources exampleChat ! 1) = Some (SourceList [10, 11])
   \<and> messageId (shownMessages exampleChat ! 3) \<noteq> Some ''m-1''
   \<and> messagesWithSources exampleChat ! 3
      = messagesWithSources
          (exampleChat\<lparr>sourceCache := (sourceCache exampleChat)(''m-1'' := None)\<rparr>) ! 3"
  using sources_attached_by_id [where st = exampleChat and M = "''m-1''"
      and cached = "[10, 11]" and i = 1 and j = 3]
  by (simp add: exampleChat_def shownMessages_def)

section \<open>Tenant setup\<close>

lemma trim_empty_iff: "trim s = [] \<longleftrightarrow> (\<forall>c \<in> set s. isWhiteSpace c)"
proof
  assume "trim s = []"
  then have all: "\<forall>c \<in> set (dropWhile isWhiteSpace s). isWhiteSpace c"
    by (simp add: trim_def)
  have "dropWhile isWhiteSpace s = []"
  proof (cases "dropWhile isWhiteSpace s")
    case Nil
    then show ?thesis .
  next
    case (Cons x xs)
    then have "\<not> isWhiteSpace x"
      using hd_dropWhile [of isWhiteSpace s] by simp
    moreover have "isWhiteSpace x"
      using all Cons by simp
    ultimately show ?thesis by simp
  qed
  then show "\<forall>c \<in> set s. isWhiteSpace c"
    by simp
next
  assume "\<forall>c \<in> set s. isWhiteSpace c"
  then have d: "dropWhile isWhiteSpace s = []"
    by simp
  show "trim s = []"
    unfolding trim_def d by simp
qed

text \<open>
  C4. For a request with a valid session whose body is an object with a string
  \<open>name\<close>: if every character of the name is white space (the name is empty after
  trimming), the handler fails with the validation error and the database is as it
  was, so no tenant is created. Otherwise, when the two storage operations succeed,
  a tenant with the trimmed name and a profile of the user in that tenant are
  created, the profile becomes the user's current profile, and the response is
  \<^verbatim>\<open>{ id }\<close> with the new tenant's identifier.
\<close>

theorem tenant_setup_contract:
  assumes "currentSession platform = Some session"
    and "\<not> bodyUsed request"
    and "body request = JsonText (JsonObject (NameString nm))"
  shows "((\<forall>c \<in> set nm. isWhiteSpace c) \<longrightarrow>
            POST platform request db = (Inl ZodError, request\<lparr>bodyUsed := True\<rparr>, db))
       \<and> (\<not> (\<forall>c \<in> set nm. isWhiteSpace c)
            \<and> \<not> createTenantFails platform \<and> \<not> setCurrentProfileIdFails platform \<longrightarrow>
            POST platform request db =
              (Inr (ResponseJson (nextTenantId platform)),
               request\<lparr>bodyUsed := True\<rparr>,
               db\<lparr>tenants := tenants db @
                      [\<lparr>tenantId = nextTenantId platform, tenantName = trim nm\<rparr>],
                  profiles := profiles db @
                      [\<lparr>profileId = nextProfileId platform, profileUserId = userId session,
                        profileTenantId = nextTenantId platform\<rparr>],
                  currentProfileId :=
                      (currentProfileId db)(userId session \<mapsto> nextProfileId platform)\<rparr>))"
proof -
  have empty: "trim nm = []" if "\<forall>c \<in> set nm. isWhiteSpace c"
    using that by (simp add: trim_empty_iff)
  have nonempty: "trim nm \<noteq> []" if "\<not> (\<forall>c \<in> set nm. isWhiteSpace c)"
    using that by (simp add: trim_empty_iff)
  show ?thesis
    using assms empty nonempty
    by (auto simp: POST_def requireSession_def request_json_def createTenant_def
        setCurrentProfileId_def)
qed

theorem tenant_setup_contract_witness:
  "currentSession examplePlatform = Some \<lparr>userId = ''u-1''\<rparr>
   \<and> \<not> bodyUsed blankRequest
   \<and> body blankRequest = JsonText (JsonObject (NameString [32, 9]))
   \<and> isWhiteSpace 32 \<and> isWhiteSpace 9
   \<and> POST examplePlatform blankRequest emptyDatabase
      = (Inl ZodError, blankRequest\<lparr>bodyUsed := True\<rparr>, emptyDatabase)
   \<and> \<not> bodyUsed acmeRequest
   \<and> body acmeRequest = JsonText (JsonObject (NameString [32, 65, 99, 109, 101, 32]))
   \<and> \<not> isWhiteSpace 65
   \<and> \<not> createTenantFails examplePlatform \<and> \<not> setCurrentProfileIdFails examplePlatform
   \<and> POST examplePlatform acmeRequest emptyDatabase
      = (Inr (ResponseJson ''t-9''),
         acmeRequest\<lparr>bodyUsed := True\<rparr>,
         \<lparr>tenants = [\<lparr>tenantId = ''t-9'', tenantName = [65, 99, 109, 101]\<rparr>],
          profiles = [\<lparr>profileId = ''p-9'', profileUserId = ''u-1'', profileTenantId = ''t-9''\<rparr>],
          currentProfileId = [''u-1'' \<mapsto> ''p-9'']\<rparr>)"
  using tenant_setup_contract [where platform = examplePlatform
      and session = "\<lparr>userId = ''u-1''\<rparr>" and request = blankRequest and nm = "[32, 9]"
      and db = emptyDatabase]
    tenant_setup_contract [where platform = examplePlatform
      and session = "\<lparr>userId = ''u-1''\<rparr>" and request = acmeRequest
      and nm = "[32, 65, 99, 109, 101, 32]" and db = emptyDatabase]
  by (simp add: examplePlatform_def blankRequest_def acmeRequest_def emptyDatabase_def
      isWhiteSpace_def trim_def)

text \<open>
  Every other body of a request with a valid session is refused as well, with the
  database as it was: no body, text that is not JSON, JSON that is not an object, and
  an object whose name is absent or not a string.
\<close>

lemma tenant_setup_rejects_other_bodies:
  assumes "currentSession platform = Some session" and "\<not> bodyUsed request"
  shows "body request = NoBody \<Longrightarrow>
           POST platform request db = (Inl SyntaxError, request, db)"
    and "body request = NotJson \<Longrightarrow>
           POST platform request db = (Inl SyntaxError, request\<lparr>bodyUsed := True\<rparr>, db)"
    and "body request = JsonText JsonNotObject \<or> body request = JsonText (JsonObject NameAbsent)
           \<or> body request = JsonText (JsonObject NameNotString) \<Longrightarrow>
           POST platform request db = (Inl ZodError, request\<lparr>bodyUsed := True\<rparr>, db)"
  using assms by (auto simp: POST_def requireSession_def request_json_def)

text \<open>
  C8. A request without a valid session is rejected as unauthenticated before anything
  else runs: the request is as it was (its body has not been read), no tenant and no
  profile is created, and every current-profile pointer is as it was.
\<close>

theorem unauthenticated_rejected:
  assumes "currentSession platform = None"
  shows "POST platform request db = (Inl Unauthenticated, request, db)
       \<and> bodyUsed (fst (snd (POST platform request db))) = bodyUsed request
       \<and> tenants (snd (snd (POST platform request db))) = tenants db
       \<and> profiles (snd (snd (POST platform request db))) = profiles db
       \<and> currentProfileId (snd (snd (POST platform request db))) = currentProfileId db"
  using assms by (simp add: POST_def requireSession_def)

theorem unauthenticated_rejected_witness:
  "currentSession (examplePlatform\<lparr>currentSession := None\<rparr>) = None
   \<and> POST (examplePlatform\<lparr>currentSession := None\<rparr>) acmeRequest emptyDatabase
      = (Inl Unauthenticated, acmeRequest, emptyDatabase)
   \<and> bodyUsed (fst (snd (POST (examplePlatform\<lparr>currentSession := None\<rparr>) acmeRequest
        emptyDatabase))) = False
   \<and> tenants (snd (snd (POST (examplePlatform\<lparr>currentSession := None\<rparr>) acmeRequest
        emptyDatabase))) = []"
  using unauthenticated_rejected [where platform = "examplePlatform\<lparr>currentSession := None\<rparr>"
      and request = acmeRequest and db = emptyDatabase]
  by (simp add: acmeRequest_def emptyDatabase_def)

text \<open>
  C10. The setup is not atomic. For a request with a valid session and a name that is
  not empty after trimming, when the creation of the tenant succeeds and the update of
  the current-profile pointer fails, the handler ends with the storage error and
  returns no tenant identifier, the tenant and the profile are in the database, and
  every current-profile pointer is as it was.
\<close>

theorem tenant_setup_not_atomic:
  assumes "currentSession platform = Some session"
    and "\<not> bodyUsed request"
    and "body request = JsonText (JsonObject (NameString nm))"
    and "trim nm \<noteq> []"
    and "\<not> createTenantFails platform"
    and "setCurrentProfileIdFails platform"
  shows "fst (POST platform request db) = Inl StorageError
       \<and> tenants (snd (snd (POST platform request db))) = tenants db @
            [\<lparr>tenantId = nextTenantId platform, tenantName = trim nm\<rparr>]
       \<and> profiles (snd (snd (POST platform request db))) = profiles db @
            [\<lparr>profileId = nextProfileId platform, profileUserId = userId session,
              profileTenantId = nextTenantId platform\<rparr>]
       \<and> currentProfileId (snd (snd (POST platform request db))) = currentProfileId db"
  using assms
  by (simp add: POST_def requireSession_def request_json_def createTenant_def
      setCurrentProfileId_def)

theorem tenant_setup_not_atomic_witness:
  "currentSession (examplePlatform\<lparr>setCurrentProfileIdFails := True\<rparr>) = Some \<lparr>userId = ''u-1''\<rparr>
   \<and> \<not> bodyUsed acmeRequest
   \<and> body acmeRequest = JsonText (JsonObject (NameString [32, 65, 99, 109, 101, 32]))
   \<and> trim [32, 65, 99, 109, 101, 32] = [65, 99, 109, 101]
   \<and> \<not> createTenantFails (examplePlatform\<lparr>setCurrentProfileIdFails := True\<rparr>)
   \<and> setCurrentProfileIdFails (examplePlatform\<lparr>setCurrentProfileIdFails := True\<rparr>)
   \<and> fst (POST (examplePlatform\<lparr>setCurrentProfileIdFails := True\<rparr>) acmeRequest emptyDatabase)
      = Inl StorageError
   \<and> tenants (snd (snd (POST (examplePlatform\<lparr>setCurrentProfileIdFails := True\<rparr>) acmeRequest
        emptyDatabase)))
      = [\<lparr>tenantId = ''t-9'', tenantName = [65, 99, 109, 101]\<rparr>]
   \<and> profiles (snd (snd (POST (examplePlatform\<lparr>setCurrentProfileIdFails := True\<rparr>) acmeRequest
        emptyDatabase)))
      = [\<lparr>profileId = ''p-9'', profileUserId = ''u-1'', profileTenantId = ''t-9''\<rparr>]
   \<and> currentProfileId (snd (snd (POST (examplePlatform\<lparr>setCurrentProfileIdFails := True\<rparr>)
        acmeRequest emptyDatabase))) ''u-1'' = None"
  using tenant_setup_not_atomic [where platform = "examplePlatform\<lparr>setCurrentProfileIdFails := True\<rparr>"
      and session = "\<lparr>userId = ''u-1''\<rparr>" and request = acmeRequest
      and nm = "[32, 65, 99, 109, 101, 32]" and db = emptyDatabase]
  by (simp add: examplePlatform_def acmeRequest_def emptyDatabase_def isWhiteSpace_def trim_def)

end
